theory Spec2Isabelle
  imports Complex_Main "HOL-Library.Sublist" "HOL-Library.Multiset"
    "HOL-Library.Char_ord" "HOL-Library.List_Lexorder"
begin

section \<open>The Projects page (frontend/src/App.tsx, component \<open>Projects\<close>)\<close>

text \<open>
  TypeScript \<open>number\<close> values that the page only ever uses as whole numbers (project ids,
  the page index, the rows-per-page setting) are integers here; \<open>NaN\<close> and fractions are
  not modelled. Strings are lists of characters.
\<close>

record Project =
  p_id :: int
  p_name :: string
  p_description :: string
  p_repository_url :: string
  p_language :: string
  p_status :: string
  p_created_at :: string
  p_updated_at :: string










text \<open>
  \<open>handleDelete\<close>: the answer of \<open>window.confirm\<close> is an input. On a confirmed delete the
  list is replaced by \<open>projects.filter(p => p.id !== projectId)\<close>. The request to the API
  is commented out in the source, so no statement of the \<open>try\<close> block can raise and the
  \<open>catch\<close> branch is never entered.
\<close>

definition handleDelete :: "bool \<Rightarrow> int \<Rightarrow> Project list \<Rightarrow> Project list" where
  "handleDelete confirmed projectId projects =
     (if confirmed then filter (\<lambda>p. p_id p \<noteq> projectId) projects else projects)"

text \<open>The list that \<open>fetchProjects\<close> installs.\<close>

definition mockProjects :: "Project list" where
  "mockProjects =
     [\<lparr>p_id = 1, p_name = ''User Management API'',
        p_description = ''RESTful API for user authentication and management'',
        p_repository_url = ''https://github.com/company/user-api'',
        p_language = ''Python'', p_status = ''active'',
        p_created_at = ''2024-01-10T10:00:00Z'', p_updated_at = ''2024-01-15T14:30:00Z''\<rparr>,
      \<lparr>p_id = 2, p_name = ''Payment Gateway'',
        p_description = ''Secure payment processing service'',
        p_repository_url = ''https://github.com/company/payment-service'',
        p_language = ''TypeScript'', p_status = ''active'',
        p_created_at = ''2024-01-08T09:00:00Z'', p_updated_at = ''2024-01-14T16:45:00Z''\<rparr>,
      \<lparr>p_id = 3, p_name = ''Authentication Service'',
        p_description = ''JWT-based authentication microservice'',
        p_repository_url = ''https://github.com/company/auth-service'',
        p_language = ''Go'', p_status = ''active'',
        p_created_at = ''2024-01-05T11:00:00Z'', p_updated_at = ''2024-01-12T13:20:00Z''\<rparr>]"


section \<open>The Dashboard page (frontend/src/pages/Dashboard.tsx)\<close>

record RecentAnalysis =
  ra_id :: int
  ra_projectName :: string
  ra_status :: string
  ra_createdAt :: string

record RiskCount =
  rc_severity :: string
  rc_count :: int
  rc_color :: string

record LanguageCount =
  lc_language :: string
  lc_count :: int

record DashboardStats =
  totalProjects :: int
  totalAnalyses :: int
  totalRisks :: int
  recentAnalyses :: "RecentAnalysis list"
  riskBreakdown :: "RiskCount list"
  languageDistribution :: "LanguageCount list"

record dashboard =
  d_stats :: "DashboardStats option"
  d_loading :: bool
  d_error :: "string option"

definition mockData :: DashboardStats where
  "mockData =
     \<lparr>totalProjects = 12, totalAnalyses = 45, totalRisks = 8,
      recentAnalyses =
        [\<lparr>ra_id = 1, ra_projectName = ''User Management API'', ra_status = ''completed'',
           ra_createdAt = ''2024-01-15T10:30:00Z''\<rparr>,
         \<lparr>ra_id = 2, ra_projectName = ''Payment Gateway'', ra_status = ''running'',
           ra_createdAt = ''2024-01-15T09:15:00Z''\<rparr>,
         \<lparr>ra_id = 3, ra_projectName = ''Auth Service'', ra_status = ''completed'',
           ra_createdAt = ''2024-01-15T08:45:00Z''\<rparr>],
      riskBreakdown =
        [\<lparr>rc_severity = ''Critical'', rc_count = 2, rc_color = ''#f44336''\<rparr>,
         \<lparr>rc_severity = ''High'', rc_count = 3, rc_color = ''#ff9800''\<rparr>,
         \<lparr>rc_severity = ''Medium'', rc_count = 2, rc_color = ''#ffc107''\<rparr>,
         \<lparr>rc_severity = ''Low'', rc_count = 1, rc_color = ''#4caf50''\<rparr>],
      languageDistribution =
        [\<lparr>lc_language = ''Python'', lc_count = 8\<rparr>,
         \<lparr>lc_language = ''JavaScript'', lc_count = 6\<rparr>,
         \<lparr>lc_language = ''TypeScript'', lc_count = 4\<rparr>,
         \<lparr>lc_language = ''Java'', lc_count = 3\<rparr>,
         \<lparr>lc_language = ''Go'', lc_count = 2\<rparr>]\<rparr>"

text \<open>
  \<open>fetchDashboardStats\<close>: \<open>setLoading(true)\<close>, then \<open>setStats(mockData)\<close> in the \<open>try\<close>
  block, then \<open>setLoading(false)\<close> in \<open>finally\<close>. The request to the API is commented out in
  the source, so no statement of the \<open>try\<close> block can raise and the \<open>catch\<close> branch
  (\<open>setError\<close>) is never entered: \<open>d_error\<close> keeps its value.
\<close>

definition fetchDashboardStats :: "dashboard \<Rightarrow> dashboard" where
  "fetchDashboardStats s = ((s\<lparr>d_loading := True\<rparr>)\<lparr>d_stats := Some mockData\<rparr>)\<lparr>d_loading := False\<rparr>"

text \<open>The state of the component before its effect has run (the \<open>useState\<close> initial values).\<close>

definition dashboard_init :: dashboard where
  "dashboard_init = \<lparr>d_stats = None, d_loading = True, d_error = None\<rparr>"


section \<open>The Analysis page (frontend/src/pages/Analysis.tsx)\<close>

text \<open>
  The interface \<open>AnalysisData\<close>. Fields of type \<open>number\<close> that hold fractions in the source
  (edge weights, the average complexity, confidences) are rationals, so that \<open>0.8\<close> is
  \<open>4/5\<close>; the maintainability index is a rational too, the other numbers are integers.
  An optional field (\<open>completedAt?\<close>, \<open>results?\<close>) is an \<open>option\<close>.
\<close>

record GraphNode =
  n_id :: string
  n_name :: string
  n_type :: string
  n_language :: string
  n_complexity :: int
  n_linesOfCode :: int

record GraphEdge =
  e_source :: string
  e_target :: string
  e_type :: string
  e_weight :: rat

record DependencyGraph =
  nodes :: "GraphNode list"
  edges :: "GraphEdge list"

record Metrics =
  totalFiles :: int
  totalLines :: int
  averageComplexity :: rat
  cyclomaticComplexity :: int
  maintainabilityIndex :: rat
  technicalDebt :: string

record Risk =
  r_id :: string
  r_severity :: string
  r_title :: string
  r_description :: string
  r_file :: string
  r_line :: int
  r_category :: string

record Recommendation =
  rec_id :: string
  rec_type :: string
  rec_title :: string
  rec_description :: string
  rec_severity :: string
  rec_confidence :: rat
  rec_impactScore :: rat
  rec_effortEstimate :: string

record Results =
  dependencyGraph :: DependencyGraph
  metrics :: Metrics
  risks :: "Risk list"
  recommendations :: "Recommendation list"

record AnalysisData =
  a_id :: int
  a_projectId :: int
  a_projectName :: string
  a_status :: string
  a_progress :: int
  a_analysisType :: string
  a_startedAt :: string
  a_completedAt :: "string option"
  a_results :: "Results option"

text \<open>The state of the component: its four \<open>useState\<close> cells.\<close>

record analysis_page =
  analysis :: "AnalysisData option"
  loading :: bool
  error :: "string option"
  tabValue :: int

definition page_init :: analysis_page where
  "page_init = \<lparr>analysis = None, loading = True, error = None, tabValue = 0\<rparr>"

text \<open>The object literal \<open>mockAnalysis\<close> of \<open>fetchAnalysis\<close>, and its \<open>results\<close> field.\<close>

definition mockResults :: Results where
  "mockResults =
     \<lparr>dependencyGraph =
        \<lparr>nodes =
           [\<lparr>n_id = ''1'', n_name = ''main.py'', n_type = ''file'', n_language = ''python'',
              n_complexity = 3, n_linesOfCode = 45\<rparr>,
            \<lparr>n_id = ''2'', n_name = ''auth.py'', n_type = ''file'', n_language = ''python'',
              n_complexity = 8, n_linesOfCode = 120\<rparr>,
            \<lparr>n_id = ''3'', n_name = ''models.py'', n_type = ''file'', n_language = ''python'',
              n_complexity = 2, n_linesOfCode = 35\<rparr>,
            \<lparr>n_id = ''4'', n_name = ''utils.py'', n_type = ''file'', n_language = ''python'',
              n_complexity = 5, n_linesOfCode = 80\<rparr>],
         edges =
           [\<lparr>e_source = ''1'', e_target = ''2'', e_type = ''imports'', e_weight = 1\<rparr>,
            \<lparr>e_source = ''1'', e_target = ''3'', e_type = ''imports'', e_weight = 1\<rparr>,
            \<lparr>e_source = ''2'', e_target = ''3'', e_type = ''uses'', e_weight = 4 / 5\<rparr>,
            \<lparr>e_source = ''2'', e_target = ''4'', e_type = ''imports'', e_weight = 1\<rparr>]\<rparr>,
      metrics =
        \<lparr>totalFiles = 4, totalLines = 280, averageComplexity = 9 / 2,
         cyclomaticComplexity = 18, maintainabilityIndex = 75, technicalDebt = ''medium''\<rparr>,
      risks =
        [\<lparr>r_id = ''1'', r_severity = ''high'', r_title = ''High Cyclomatic Complexity'',
           r_description = ''The auth.py file has a cyclomatic complexity of 8, which indicates complex logic that may be difficult to maintain.'',
           r_file = ''auth.py'', r_line = 45, r_category = ''complexity''\<rparr>,
         \<lparr>r_id = ''2'', r_severity = ''medium'', r_title = ''Large Function'',
           r_description = ''The authenticate_user function in auth.py is 45 lines long and handles multiple responsibilities.'',
           r_file = ''auth.py'', r_line = 23, r_category = ''maintainability''\<rparr>],
      recommendations =
        [\<lparr>rec_id = ''1'', rec_type = ''refactoring'', rec_title = ''Extract Authentication Logic'',
           rec_description = ''Break down the authenticate_user function into smaller, more focused functions.'',
           rec_severity = ''medium'', rec_confidence = 17 / 20, rec_impactScore = 7 / 10,
           rec_effortEstimate = ''medium''\<rparr>,
         \<lparr>rec_id = ''2'', rec_type = ''security'', rec_title = ''Add Input Validation'',
           rec_description = ''Implement comprehensive input validation for user credentials.'',
           rec_severity = ''high'', rec_confidence = 9 / 10, rec_impactScore = 4 / 5,
           rec_effortEstimate = ''low''\<rparr>]\<rparr>"

definition mockAnalysis :: "int \<Rightarrow> AnalysisData" where
  "mockAnalysis analysisId =
     \<lparr>a_id = analysisId, a_projectId = 1, a_projectName = ''User Management API'',
      a_status = ''completed'', a_progress = 100, a_analysisType = ''full'',
      a_startedAt = ''2024-01-15T10:30:00Z'', a_completedAt = Some ''2024-01-15T10:35:00Z'',
      a_results = Some mockResults\<rparr>"

text \<open>
  \<open>fetchAnalysis\<close>: \<open>setLoading(true)\<close>, then \<open>setAnalysis(mockAnalysis)\<close> in the \<open>try\<close> block,
  then \<open>setLoading(false)\<close> in \<open>finally\<close>. The request to the API is commented out in the
  source, so no statement of the \<open>try\<close> block can raise and the \<open>catch\<close> branch
  (\<open>setError\<close>) is never entered: \<open>error\<close> keeps its value.
\<close>

definition fetchAnalysis :: "int \<Rightarrow> analysis_page \<Rightarrow> analysis_page" where
  "fetchAnalysis analysisId s =
     ((s\<lparr>loading := True\<rparr>)\<lparr>analysis := Some (mockAnalysis analysisId)\<rparr>)\<lparr>loading := False\<rparr>"

definition handleTabChange :: "int \<Rightarrow> analysis_page \<Rightarrow> analysis_page" where
  "handleTabChange newValue s = s\<lparr>tabValue := newValue\<rparr>"

text \<open>
  What happens to the component: its effect (or the Retry button) calls \<open>fetchAnalysis\<close> with
  the number parsed from the route, or the user picks a tab. \<open>page_run\<close> is the state after
  a sequence of such events, oldest first, from the initial state.
\<close>

datatype page_event = Fetch int | TabChange int

fun page_step :: "page_event \<Rightarrow> analysis_page \<Rightarrow> analysis_page" where
  "page_step (Fetch analysisId) s = fetchAnalysis analysisId s"
| "page_step (TabChange newValue) s = handleTabChange newValue s"

definition page_run :: "page_event list \<Rightarrow> analysis_page" where
  "page_run evs = fold page_step evs page_init"

definition getSeverityColor :: "string \<Rightarrow> string" where
  "getSeverityColor severity =
     (if severity = ''critical'' then ''error''
      else if severity = ''high'' then ''error''
      else if severity = ''medium'' then ''warning''
      else if severity = ''low'' then ''info''
      else ''default'')"

text \<open>
  What the component returns, reduced to the content it shows. \<open>TabPanel\<close> renders its
  children only when the selected tab is its own index, so one panel at most is shown.
  A row of the metrics table is its name, its value and the label and colour of its chip.
\<close>

datatype cell = Num rat | Str string

datatype panel =
    DependenciesPanel "GraphNode list"
  | RisksPanel "(Risk \<times> string) list"
  | RecommendationsPanel "(Recommendation \<times> string) list"
  | MetricsPanel "(string \<times> cell \<times> string \<times> string) list"
  | NoPanel

record results_view =
  v_totalFiles :: int
  v_totalLines :: int
  v_averageComplexity :: rat
  v_maintainability :: rat
  v_panel :: panel

record analysis_view =
  av_projectName :: string
  av_id :: int
  av_analysisType :: string
  av_statusChip :: "string \<times> string"
  av_progressChip :: int
  av_progressCard :: "int option"
  av_results :: "results_view option"

datatype view = Spinner | ErrorView string | NotFound | AnalysisView analysis_view

definition metricsTable :: "Metrics \<Rightarrow> (string \<times> cell \<times> string \<times> string) list" where
  "metricsTable m =
     [(''Total Files'', Num (of_int (totalFiles m)), ''Good'', ''success''),
      (''Total Lines of Code'', Num (of_int (totalLines m)), ''Good'', ''success''),
      (''Average Complexity'', Num (averageComplexity m),
         if averageComplexity m > 5 then ''High'' else ''Good'',
         if averageComplexity m > 5 then ''warning'' else ''success''),
      (''Cyclomatic Complexity'', Num (of_int (cyclomaticComplexity m)),
         if cyclomaticComplexity m > 20 then ''High'' else ''Good'',
         if cyclomaticComplexity m > 20 then ''warning'' else ''success''),
      (''Maintainability Index'', Num (maintainabilityIndex m),
         if maintainabilityIndex m < 65 then ''Low'' else ''Good'',
         if maintainabilityIndex m < 65 then ''warning'' else ''success''),
      (''Technical Debt'', Str (technicalDebt m), technicalDebt m,
         if technicalDebt m = ''high'' then ''error'' else ''warning'')]"

definition renderResults :: "int \<Rightarrow> Results \<Rightarrow> results_view" where
  "renderResults tab r =
     \<lparr>v_totalFiles = totalFiles (metrics r),
      v_totalLines = totalLines (metrics r),
      v_averageComplexity = averageComplexity (metrics r),
      v_maintainability = maintainabilityIndex (metrics r),
      v_panel =
        (if tab = 0 then DependenciesPanel (nodes (dependencyGraph r))
         else if tab = 1 then
           RisksPanel (map (\<lambda>risk. (risk, getSeverityColor (r_severity risk))) (risks r))
         else if tab = 2 then
           RecommendationsPanel
             (map (\<lambda>rec. (rec, getSeverityColor (rec_severity rec))) (recommendations r))
         else if tab = 3 then MetricsPanel (metricsTable (metrics r))
         else NoPanel)\<rparr>"

text \<open>
  The component's return: the spinner while loading; the error alert when \<open>error\<close> is truthy
  (a string other than the empty one); "Analysis not found" without an analysis; else the
  header, the progress card when the status is \<open>running\<close>, and the results when the analysis
  carries them (\<open>analysis.results &&\<close>).
\<close>

definition render :: "analysis_page \<Rightarrow> view" where
  "render s =
     (if loading s then Spinner
      else case error s of
        Some (c # cs) \<Rightarrow> ErrorView (c # cs)
      | _ \<Rightarrow>
        (case analysis s of
           None \<Rightarrow> NotFound
         | Some a \<Rightarrow>
             AnalysisView
               \<lparr>av_projectName = a_projectName a,
                av_id = a_id a,
                av_analysisType = a_analysisType a,
                av_statusChip =
                  (a_status a, if a_status a = ''completed'' then ''success'' else ''warning''),
                av_progressChip = a_progress a,
                av_progressCard = (if a_status a = ''running'' then Some (a_progress a) else None),
                av_results = map_option (renderResults (tabValue s)) (a_results a)\<rparr>))"

text \<open>The view presents result content: it is the analysis view and has its results part.\<close>

definition presents_results :: "view \<Rightarrow> bool" where
  "presents_results v = (case v of AnalysisView av \<Rightarrow> av_results av \<noteq> None | _ \<Rightarrow> False)"


section \<open>The Risk Scorer (spec, section 4.4)\<close>

text \<open>
  The engine that computes risk values belongs to the backend, whose code is not among the
  frontend sources modelled above: the Analysis page only receives severity labels. The
  definitions of this section follow the spec's section 4.4.
\<close>











section \<open>The Pipeline Orchestrator (spec, sections 3, 4.6 and 7)\<close>

text \<open>
  The orchestrator that runs a job through its stages belongs to the backend, whose code
  is not among the frontend sources modelled above: the Analysis page only receives a status
  and a percentage. The definitions of this section follow the spec's state machine.
\<close>

text \<open>Modelled from the spec: the states of an AnalysisJob in the Pipeline Orchestrator,
  "Pending, Parsing, GraphBuilding, MetricComputing, Scoring, Completed, with Cancelled and
  Failed".\<close>

datatype job_state =
  Pending | Parsing | GraphBuilding | MetricComputing | Scoring | Completed | Cancelled | Failed

text \<open>Modelled from the spec: the node-scoped, non-fatal diagnostics an AnalysisJob of the
  orchestrator records (section 7 and the adapters' and the builder's diagnostics).\<close>

datatype diagnostic = ParseError | TimeoutError | LanguageUnsupported | UnresolvedReference

text \<open>Modelled from the spec: the parts of the result of an AnalysisJob,
  "getResult(jobId) -> {graph, metrics, risks}", each produced by one stage of the
  orchestrator.\<close>

datatype result_part = GraphPart | MetricsPart | RisksPart

text \<open>Modelled from the spec: the record of an AnalysisJob kept by the orchestrator: its
  status, the total-file-count (known once the file list is enumerated, \<open>None\<close> before)
  and the parsed-file-count (the completed counter) of the Parsing stage, the error list,
  the terminal fatal error if any, and the result parts computed so far.\<close>

record job =
  j_state :: job_state
  j_total :: "nat option"
  j_parsed :: nat
  j_diagnostics :: "diagnostic list"
  j_fatal :: "string option"
  j_results :: "result_part list"

text \<open>Modelled from the spec: what happens to an AnalysisJob of the orchestrator. The job
  is accepted with its enumerated file list (of the given length); a file reaches its
  terminal outcome, parsed cleanly or recorded with a diagnostic; the current stage
  completes, with the diagnostics it emits; a fatal condition is raised with its
  description; the job is cancelled.\<close>

datatype job_event =
    Accept nat
  | FileOutcome "diagnostic option"
  | StageDone "diagnostic list"
  | Fatal string
  | Cancel

text \<open>Modelled from the spec: "Failed/Completed/Cancelled are terminal" in the
  orchestrator's state machine.\<close>

fun terminal :: "job_state \<Rightarrow> bool" where
  "terminal Completed = True"
| "terminal Cancelled = True"
| "terminal Failed = True"
| "terminal _ = False"

text \<open>Modelled from the spec: a job of the orchestrator as submitted, before it is
  accepted.\<close>

definition job_init :: job where
  "job_init =
     \<lparr>j_state = Pending, j_total = None, j_parsed = 0, j_diagnostics = [], j_fatal = None,
      j_results = []\<rparr>"

text \<open>Modelled from the spec: the completion of the current stage in the orchestrator.
  Parsing hands over to GraphBuilding "only once every file has a terminal per-file
  outcome"; GraphBuilding, MetricComputing and Scoring are pure transformations that each
  add their part of the result, and Scoring ends in Completed.\<close>

definition stage_done :: "diagnostic list \<Rightarrow> job \<Rightarrow> job" where
  "stage_done ds j =
     (case j_state j of
        Parsing \<Rightarrow> if j_total j = Some (j_parsed j) then j\<lparr>j_state := GraphBuilding\<rparr> else j
      | GraphBuilding \<Rightarrow>
          j\<lparr>j_state := MetricComputing, j_diagnostics := j_diagnostics j @ ds,
            j_results := j_results j @ [GraphPart]\<rparr>
      | MetricComputing \<Rightarrow>
          j\<lparr>j_state := Scoring, j_diagnostics := j_diagnostics j @ ds,
            j_results := j_results j @ [MetricsPart]\<rparr>
      | Scoring \<Rightarrow>
          j\<lparr>j_state := Completed, j_diagnostics := j_diagnostics j @ ds,
            j_results := j_results j @ [RisksPart]\<rparr>
      | _ \<Rightarrow> j)"

text \<open>Modelled from the spec: one transition of the orchestrator's state machine. No
  event changes a terminal job. Cancelled and Failed are reachable from any other state: a
  cancelled job keeps the partial results already computed, a failed one records the
  triggering error and keeps no result. A job is accepted while Pending. While Parsing,
  every file outcome, success or failure, increments the completed counter, and a failure
  is recorded as a diagnostic without failing the job.\<close>

definition job_step :: "job_event \<Rightarrow> job \<Rightarrow> job" where
  "job_step ev j =
     (if terminal (j_state j) then j
      else case ev of
        Cancel \<Rightarrow> j\<lparr>j_state := Cancelled\<rparr>
      | Fatal err \<Rightarrow> j\<lparr>j_state := Failed, j_fatal := Some err, j_results := []\<rparr>
      | Accept n \<Rightarrow>
          if j_state j = Pending
          then j\<lparr>j_state := Parsing, j_total := Some n, j_parsed := 0\<rparr>
          else j
      | FileOutcome d \<Rightarrow>
          if j_state j = Parsing \<and>
             (case j_total j of None \<Rightarrow> False | Some files \<Rightarrow> j_parsed j < files)
          then j\<lparr>j_parsed := j_parsed j + 1,
                 j_diagnostics := j_diagnostics j @ (case d of None \<Rightarrow> [] | Some x \<Rightarrow> [x])\<rparr>
          else j
      | StageDone ds \<Rightarrow> stage_done ds j)"

text \<open>Modelled from the spec: the percentage the orchestrator reports for a job,
  "parsed-file-count / total-file-count, surfaced as an integer percentage", rounded down
  so that it is 100 "only after the stage genuinely completes". Before the file list is
  enumerated no file is parsed and the percentage is 0; over an empty file list every
  file has its outcome as soon as the list is enumerated, and the percentage is 100.\<close>

definition percent :: "job \<Rightarrow> nat" where
  "percent j =
     (case j_total j of
        None \<Rightarrow> 0
      | Some files \<Rightarrow> if files = 0 then 100 else j_parsed j * 100 div files)"

text \<open>Modelled from the spec: the history of a job of the orchestrator, its record after
  each event, oldest first, starting from the record the events find.\<close>

fun job_trace :: "job_event list \<Rightarrow> job \<Rightarrow> job list" where
  "job_trace [] j = [j]"
| "job_trace (ev # evs) j = j # job_trace evs (job_step ev j)"

text \<open>Modelled from the spec: the history of a job of the orchestrator from its
  submission.\<close>

definition job_run :: "job_event list \<Rightarrow> job list" where
  "job_run evs = job_trace evs job_init"


text \<open>
  Two invariants of the state machine above, for the proofs below. The counters: while
  no file list is known no file is counted and the job is Pending or has ended without a
  result; once it is known the job is past Pending, no more files are counted than there
  are, and every file is counted once the Parsing stage is left for the next one. The
  payload: the result parts a job holds follow from its state, and a fatal error is recorded
  exactly in Failed.
\<close>

definition counters_inv :: "job \<Rightarrow> bool" where
  "counters_inv j =
     (case j_total j of
        None \<Rightarrow> j_parsed j = 0 \<and> j_state j \<in> {Pending, Cancelled, Failed}
      | Some files \<Rightarrow>
          j_parsed j \<le> files \<and> j_state j \<noteq> Pending \<and>
          (j_state j \<in> {GraphBuilding, MetricComputing, Scoring, Completed} \<longrightarrow>
             j_parsed j = files))"

definition payload_inv :: "job \<Rightarrow> bool" where
  "payload_inv j =
     ((j_state j = Failed \<longrightarrow> j_results j = [] \<and> j_fatal j \<noteq> None) \<and>
      (j_state j \<noteq> Failed \<longrightarrow> j_fatal j = None) \<and>
      (j_state j \<in> {Pending, Parsing, GraphBuilding} \<longrightarrow> j_results j = []) \<and>
      (j_state j = MetricComputing \<longrightarrow> j_results j = [GraphPart]) \<and>
      (j_state j = Scoring \<longrightarrow> j_results j = [GraphPart, MetricsPart]) \<and>
      (j_state j = Completed \<longrightarrow> j_results j = [GraphPart, MetricsPart, RisksPart]))"


section \<open>The Parsing stage and the Dependency Graph Builder (spec, sections 3, 4.2 and 5)\<close>

text \<open>
  The parsing stage with its worker pool and the graph builder belong to the backend, whose
  code is not among the frontend sources modelled above. The definitions of this section
  follow the spec.
\<close>


text \<open>Modelled from the spec: the type of a DependencyEdge of the graph builder, "typed
  {imports, calls, inherits}", as the adapter classified the reference.\<close>

datatype edge_kind = ImportsEdge | CallsEdge | InheritsEdge
















section \<open>Properties of the Projects page\<close>









text \<open>
  Claim C9. A confirmed delete of a project id keeps exactly the entries of the list whose
  id differs from it, each as often as before and in the order they had (the new list is a
  subsequence of the old one), so exactly the entries with the given id are gone; a declined
  delete leaves the list as it was.
\<close>

theorem handleDelete_frame:
  "mset (handleDelete True projectId projects) =
     filter_mset (\<lambda>p. p_id p \<noteq> projectId) (mset projects) \<and>
   (\<forall>p \<in> set projects.
      p \<in> set (handleDelete True projectId projects) \<longleftrightarrow> p_id p \<noteq> projectId) \<and>
   subseq (handleDelete True projectId projects) projects \<and>
   handleDelete False projectId projects = projects"
  by (auto simp: handleDelete_def)

theorem handleDelete_frame_witness:
  "map p_id (handleDelete True 2 mockProjects) = [1, 3] \<and>
   hd mockProjects \<in> set (handleDelete True 2 mockProjects) \<and>
   subseq (handleDelete True 2 mockProjects) mockProjects \<and>
   handleDelete False 2 mockProjects = mockProjects"
  using handleDelete_frame [of 2 mockProjects]
  by (simp add: handleDelete_def mockProjects_def)


section \<open>Properties of the Dashboard page\<close>

text \<open>
  Claim C10. The statistics that \<open>fetchDashboardStats\<close> installs, from whatever state of
  the component it is called, have a risk breakdown whose counts add up to \<open>totalRisks\<close>.
\<close>

theorem fetchDashboardStats_riskBreakdown:
  "\<exists>stats. d_stats (fetchDashboardStats s) = Some stats \<and>
      sum_list (map rc_count (riskBreakdown stats)) = totalRisks stats"
  by (simp add: fetchDashboardStats_def mockData_def)

theorem fetchDashboardStats_riskBreakdown_witness:
  "\<exists>stats. d_stats (fetchDashboardStats dashboard_init) = Some stats \<and>
      map rc_count (riskBreakdown stats) = [2, 3, 2, 1] \<and> totalRisks stats = 8 \<and>
      sum_list (map rc_count (riskBreakdown stats)) = totalRisks stats"
  using fetchDashboardStats_riskBreakdown [of dashboard_init]
  by (simp add: fetchDashboardStats_def mockData_def)


section \<open>Properties of the Analysis page\<close>

lemma fold_page_step_analysis:
  "analysis (fold page_step evs s) = analysis s \<or>
   (\<exists>i. analysis (fold page_step evs s) = Some (mockAnalysis i))"
proof (induction evs arbitrary: s)
  case Nil
  then show ?case by simp
next
  case (Cons ev evs)
  show ?case
  proof (cases ev)
    case (Fetch i)
    with Cons [of "fetchAnalysis i s"] show ?thesis
      by (auto simp: fetchAnalysis_def)
  next
    case (TabChange n)
    with Cons [of "handleTabChange n s"] show ?thesis
      by (auto simp: handleTabChange_def)
  qed
qed

lemma page_run_analysis:
  "analysis (page_run evs) = Some a \<Longrightarrow> \<exists>i. a = mockAnalysis i"
  using fold_page_step_analysis [of evs page_init]
  by (auto simp: page_run_def page_init_def)

lemma page_run_Fetch:
  "page_run [Fetch i] =
     \<lparr>analysis = Some (mockAnalysis i), loading = False, error = None, tabValue = 0\<rparr>"
  by (simp add: page_run_def page_init_def fetchAnalysis_def)

lemma mock_edges:
  "e \<in> set (edges (dependencyGraph mockResults)) \<Longrightarrow>
     e_type e \<in> {''imports'', ''calls'', ''inherits'', ''uses''} \<and>
     0 \<le> e_weight e \<and> e_weight e \<le> 1 \<and> e_source e \<noteq> e_target e"
  by (auto simp: mockResults_def)



lemma error_view_alone:
  "render s = ErrorView e \<Longrightarrow> error s = Some e \<and> e \<noteq> [] \<and> \<not> presents_results (render s)"
  by (auto simp: render_def presents_results_def split: if_splits option.splits list.splits)

lemma mock_risk_labels:
  "r \<in> set (risks mockResults) \<Longrightarrow>
     r_severity r \<in> {''low'', ''medium'', ''high'', ''critical''} \<and>
     getSeverityColor (r_severity r) \<noteq> ''default''"
  by (auto simp: mockResults_def getSeverityColor_def)

text \<open>
  Claim C2, as the code has it. In every state the page reaches, each edge of the
  dependency graph it holds has a weight in \<open>[0,1]\<close> and a target other than its source, and
  its type is one of \<open>imports\<close>, \<open>calls\<close>, \<open>inherits\<close> and \<open>uses\<close>.
\<close>

theorem fetched_edges_wellformed:
  "\<forall>a r. analysis (page_run evs) = Some a \<longrightarrow> a_results a = Some r \<longrightarrow>
     (\<forall>e \<in> set (edges (dependencyGraph r)).
        e_type e \<in> {''imports'', ''calls'', ''inherits'', ''uses''} \<and>
        0 \<le> e_weight e \<and> e_weight e \<le> 1 \<and> e_source e \<noteq> e_target e)"
proof (intro allI impI ballI)
  fix a r e
  assume "analysis (page_run evs) = Some a" "a_results a = Some r"
    and e: "e \<in> set (edges (dependencyGraph r))"
  then have "r = mockResults"
    by (auto dest!: page_run_analysis simp: mockAnalysis_def)
  with e show "e_type e \<in> {''imports'', ''calls'', ''inherits'', ''uses''} \<and>
        0 \<le> e_weight e \<and> e_weight e \<le> 1 \<and> e_source e \<noteq> e_target e"
    using mock_edges by blast
qed

theorem fetched_edges_wellformed_witness:
  "analysis (page_run [Fetch 1]) = Some (mockAnalysis 1) \<and>
   a_results (mockAnalysis 1) = Some mockResults \<and>
   \<lparr>e_source = ''2'', e_target = ''3'', e_type = ''uses'', e_weight = 4 / 5\<rparr>
     \<in> set (edges (dependencyGraph mockResults)) \<and>
   ''uses'' \<in> {''imports'', ''calls'', ''inherits'', ''uses''} \<and>
   (0::rat) \<le> 4 / 5 \<and> (4 / 5::rat) \<le> 1 \<and> ''2'' \<noteq> ''3''"
proof -
  let ?e = "\<lparr>e_source = ''2'', e_target = ''3'', e_type = ''uses'', e_weight = 4 / 5\<rparr>"
  have 1: "analysis (page_run [Fetch 1]) = Some (mockAnalysis 1)"
    by (simp add: page_run_Fetch)
  have 2: "a_results (mockAnalysis 1) = Some mockResults"
    by (simp add: mockAnalysis_def)
  have 3: "?e \<in> set (edges (dependencyGraph mockResults))"
    by (simp add: mockResults_def)
  from fetched_edges_wellformed [of "[Fetch 1]"] 1 2 3
  have "e_type ?e \<in> {''imports'', ''calls'', ''inherits'', ''uses''} \<and>
        0 \<le> e_weight ?e \<and> e_weight ?e \<le> 1 \<and> e_source ?e \<noteq> e_target ?e"
    by blast
  with 1 2 3 show ?thesis
    by simp
qed

text \<open>
  Claim C2 as stated fails: the result that \<open>fetchAnalysis\<close> delivers for analysis 1 has
  the edge from node 2 to node 3, whose type \<open>uses\<close> is none of \<open>imports\<close>, \<open>calls\<close>,
  \<open>inherits\<close>.
\<close>

theorem edge_type_counterexample:
  "analysis (page_run [Fetch 1]) = Some (mockAnalysis 1) \<and>
   a_results (mockAnalysis 1) = Some mockResults \<and>
   \<lparr>e_source = ''2'', e_target = ''3'', e_type = ''uses'', e_weight = 4 / 5\<rparr>
     \<in> set (edges (dependencyGraph mockResults)) \<and>
   ''uses'' \<notin> {''imports'', ''calls'', ''inherits''}"
  by (simp add: page_run_Fetch mockAnalysis_def mockResults_def)




section \<open>Properties of the Risk Scorer\<close>










section \<open>Properties of the Pipeline Orchestrator\<close>

lemma counters_inv_init: "counters_inv job_init"
  by (simp add: counters_inv_def job_init_def)

lemma counters_inv_step: "counters_inv j \<Longrightarrow> counters_inv (job_step ev j)"
  unfolding counters_inv_def
  by (cases ev; cases "j_state j"; cases "j_total j")
    (simp_all add: job_step_def stage_done_def)

lemma total_step: "j_total j = Some t \<Longrightarrow> j_state j \<noteq> Pending \<Longrightarrow> j_total (job_step ev j) = Some t"
  by (cases ev; cases "j_state j") (simp_all add: job_step_def stage_done_def)

lemma parsed_step: "j_state j \<noteq> Pending \<Longrightarrow> j_parsed j \<le> j_parsed (job_step ev j)"
  by (cases ev; cases "j_state j") (simp_all add: job_step_def stage_done_def)

lemma terminal_step: "terminal (j_state j) \<Longrightarrow> job_step ev j = j"
  by (simp add: job_step_def)

lemma percent_step:
  assumes "counters_inv j"
  shows "percent j \<le> percent (job_step ev j)"
proof (cases "j_total j")
  case None
  then show ?thesis by (simp add: percent_def)
next
  case (Some t)
  with assms have np: "j_state j \<noteq> Pending"
    by (simp add: counters_inv_def)
  from total_step [OF Some np] parsed_step [OF np] Some show ?thesis
    by (simp add: percent_def div_le_mono)
qed

lemma percent_le_100:
  assumes "counters_inv j"
  shows "percent j \<le> 100"
proof (cases "j_total j")
  case None
  then show ?thesis by (simp add: percent_def)
next
  case (Some t)
  with assms have le: "j_parsed j \<le> t"
    by (simp add: counters_inv_def)
  show ?thesis
  proof (cases "t = 0")
    case True
    with Some show ?thesis by (simp add: percent_def)
  next
    case False
    from le have "j_parsed j * 100 div t \<le> t * 100 div t"
      by (intro div_le_mono) simp
    also from False have "t * 100 div t = 100"
      by simp
    finally show ?thesis
      using Some False by (simp add: percent_def)
  qed
qed

lemma percent_100_iff:
  assumes "counters_inv j" "j_total j = Some t"
  shows "percent j = 100 \<longleftrightarrow> j_parsed j = t"
proof (cases "t = 0")
  case True
  with assms show ?thesis
    by (simp add: percent_def counters_inv_def)
next
  case False
  from assms have le: "j_parsed j \<le> t"
    by (simp add: counters_inv_def)
  show ?thesis
  proof
    assume "j_parsed j = t"
    with assms(2) False show "percent j = 100" by (simp add: percent_def)
  next
    assume "percent j = 100"
    with assms(2) False have e: "j_parsed j * 100 div t = 100"
      by (simp add: percent_def)
    show "j_parsed j = t"
    proof (rule ccontr)
      assume "j_parsed j \<noteq> t"
      with le have "j_parsed j * 100 < 100 * t" by simp
      then have "j_parsed j * 100 div t < 100"
        using False by (simp add: div_less_iff_less_mult mult.commute)
      with e show False by simp
    qed
  qed
qed

lemma outcomes_fold:
  assumes "j_state j = Parsing" "j_total j = Some t" "j_parsed j + length ds \<le> t"
  shows "j_state (fold job_step (map FileOutcome ds) j) = Parsing \<and>
    j_total (fold job_step (map FileOutcome ds) j) = Some t \<and>
    j_parsed (fold job_step (map FileOutcome ds) j) = j_parsed j + length ds"
  using assms
proof (induction ds arbitrary: j)
  case Nil
  then show ?case by simp
next
  case (Cons d ds)
  let ?j = "job_step (FileOutcome d) j"
  from Cons.prems have "j_state ?j = Parsing" "j_total ?j = Some t" "j_parsed ?j = j_parsed j + 1"
    by (simp_all add: job_step_def)
  with Cons.IH [of ?j] Cons.prems(3) show ?case
    by simp
qed

lemma length_job_trace: "length (job_trace evs j) = Suc (length evs)"
  by (induction evs arbitrary: j) simp_all

lemma job_trace_nth_0: "job_trace evs j ! 0 = j"
  by (cases evs) simp_all

lemma job_trace_drop:
  "i \<le> length evs \<Longrightarrow> drop i (job_trace evs j) = job_trace (drop i evs) (job_trace evs j ! i)"
proof (induction evs arbitrary: i j)
  case Nil
  then show ?case by simp
next
  case (Cons ev evs)
  show ?case
  proof (cases i)
    case 0
    then show ?thesis by simp
  next
    case (Suc i')
    with Cons.prems have "i' \<le> length evs" by simp
    from Cons.IH [OF this, of "job_step ev j"] Suc show ?thesis by simp
  qed
qed

lemma job_trace_later:
  assumes "i \<le> k" "k \<le> length evs"
  shows "job_trace evs j ! k \<in> set (job_trace (drop i evs) (job_trace evs j ! i))"
proof -
  from assms have i: "i \<le> length evs" by simp
  have "job_trace evs j ! k = drop i (job_trace evs j) ! (k - i)"
    using assms by (simp add: length_job_trace)
  moreover have "k - i < length (drop i (job_trace evs j))"
    using assms by (simp add: length_job_trace)
  ultimately have "job_trace evs j ! k \<in> set (drop i (job_trace evs j))"
    by (metis nth_mem)
  with job_trace_drop [OF i] show ?thesis by simp
qed

lemma job_trace_invariant:
  assumes "\<And>ev j. P j \<Longrightarrow> P (job_step ev j)" "P j" "x \<in> set (job_trace evs j)"
  shows "P x"
  using assms(2,3)
proof (induction evs arbitrary: j)
  case Nil
  then show ?case by simp
next
  case (Cons ev evs)
  from Cons.prems(2) have "x = j \<or> x \<in> set (job_trace evs (job_step ev j))" by simp
  then show ?case
  proof
    assume "x = j" with Cons.prems(1) show ?thesis by simp
  next
    assume "x \<in> set (job_trace evs (job_step ev j))"
    with Cons.IH [OF assms(1) [OF Cons.prems(1)]] show ?thesis by blast
  qed
qed

lemma job_trace_terminal:
  "terminal (j_state j) \<Longrightarrow> x \<in> set (job_trace evs j) \<Longrightarrow> x = j"
  by (induction evs arbitrary: j) (auto simp: terminal_step)

lemma job_trace_ne: "job_trace evs j \<noteq> []"
  by (cases evs) simp_all

lemma last_job_trace: "last (job_trace evs j) = fold job_step evs j"
  by (induction evs arbitrary: j) (simp_all add: job_trace_ne)

lemma last_job_run_nth: "last (job_run evs) = job_run evs ! length evs"
  by (simp add: job_run_def last_conv_nth job_trace_ne length_job_trace)

lemma job_run_counters: "x \<in> set (job_run evs) \<Longrightarrow> counters_inv x"
  unfolding job_run_def
  by (rule job_trace_invariant [where P = counters_inv, OF counters_inv_step counters_inv_init])


lemma percent_trace:
  assumes "counters_inv j" "x \<in> set (job_trace evs j)"
  shows "percent j \<le> percent x"
proof -
  let ?P = "\<lambda>y. counters_inv y \<and> percent j \<le> percent y"
  have "?P x"
  proof (rule job_trace_invariant [where P = ?P, OF _ _ assms(2)])
    fix ev y assume "?P y"
    with percent_step [of y ev] counters_inv_step [of y ev]
    show "?P (job_step ev y)" by fastforce
  next
    from assms show "?P j" by simp
  qed
  then show ?thesis by simp
qed

lemma percent_mono:
  assumes "i < k" "k < length (job_run evs)"
  shows "percent (job_run evs ! i) \<le> percent (job_run evs ! k) \<and> percent (job_run evs ! k) \<le> 100"
proof -
  from assms have k: "k \<le> length evs" and i: "i < length (job_run evs)"
    by (simp_all add: job_run_def length_job_trace)
  from i have ci: "counters_inv (job_run evs ! i)"
    by (auto intro: job_run_counters [of _ evs])
  from assms(2) have ck: "counters_inv (job_run evs ! k)"
    by (auto intro: job_run_counters [of _ evs])
  from assms(1) k
  have "job_run evs ! k \<in> set (job_trace (drop i evs) (job_run evs ! i))"
    unfolding job_run_def by (intro job_trace_later) simp_all
  from percent_trace [OF ci this] percent_le_100 [OF ck] show ?thesis
    by simp
qed

lemma completed_percent:
  assumes "m < length (job_run evs)" "j_state (job_run evs ! m) = Completed"
  shows "percent (job_run evs ! m) = 100"
proof -
  let ?x = "job_run evs ! m"
  from assms(1) have c: "counters_inv ?x"
    by (auto intro: job_run_counters [of _ evs])
  with assms(2) obtain t where t: "j_total ?x = Some t" "j_parsed ?x = t"
    by (cases "j_total ?x") (auto simp: counters_inv_def)
  with percent_100_iff [OF c t(1)] show ?thesis
    by simp
qed

lemma outcomes_run:
  assumes "length ds \<le> n"
  shows "j_parsed (last (job_run (Accept n # map FileOutcome ds))) = length ds \<and>
    percent (last (job_run (Accept n # map FileOutcome ds))) =
      (if n = 0 then 100 else length ds * 100 div n)"
proof -
  let ?j = "job_step (Accept n) job_init"
  let ?r = "fold job_step (map FileOutcome ds) ?j"
  have r: "last (job_run (Accept n # map FileOutcome ds)) = ?r"
    by (simp only: job_run_def last_job_trace fold_simps)
  have j: "j_state ?j = Parsing" "j_total ?j = Some n" "j_parsed ?j = 0"
    by (simp_all add: job_step_def job_init_def)
  with assms have "j_parsed ?j + length ds \<le> n"
    by simp
  from outcomes_fold [OF j(1,2) this] j(3)
  have "j_total ?r = Some n" "j_parsed ?r = length ds"
    by simp_all
  then have "j_parsed ?r = length ds \<and>
      percent ?r = (if n = 0 then 100 else length ds * 100 div n)"
    by (simp add: percent_def)
  with r show ?thesis
    by (simp only:)
qed

lemma payload_inv_init: "payload_inv job_init"
  by (simp add: payload_inv_def job_init_def)

lemma payload_inv_step: "payload_inv j \<Longrightarrow> payload_inv (job_step ev j)"
  unfolding payload_inv_def
  by (cases ev; cases "j_state j") (simp_all add: job_step_def stage_done_def)

lemma job_run_payload: "payload_inv (last (job_run evs))"
proof -
  have "last (job_run evs) \<in> set (job_trace evs job_init)"
    by (simp add: job_run_def job_trace_ne)
  with payload_inv_step payload_inv_init show ?thesis
    by (rule job_trace_invariant [where P = payload_inv])
qed

lemma fatal_step:
  "j_fatal (job_step ev j) = j_fatal j \<or> (\<exists>err. ev = Fatal err \<and> j_fatal (job_step ev j) = Some err)"
  by (cases ev; cases "j_state j") (simp_all add: job_step_def stage_done_def)

lemma fatal_fold:
  "j_fatal (fold job_step evs j) = j_fatal j \<or>
   (\<exists>err. Fatal err \<in> set evs \<and> j_fatal (fold job_step evs j) = Some err)"
proof (induction evs arbitrary: j)
  case Nil
  then show ?case by simp
next
  case (Cons ev evs)
  from Cons [of "job_step ev j"] fatal_step [of ev j] show ?case
    by auto
qed

lemma job_run_append:
  "terminal (j_state (last (job_run evs))) \<Longrightarrow> last (job_run (evs @ later)) = last (job_run evs)"
proof -
  have stay: "terminal (j_state j) \<Longrightarrow> fold job_step later j = j" for j
    by (induction later) (simp_all add: terminal_step)
  assume "terminal (j_state (last (job_run evs)))"
  with stay show ?thesis
    by (simp add: job_run_def last_job_trace)
qed

lemma diagnostics_step:
  "d \<in> set (j_diagnostics (job_step ev j)) \<Longrightarrow>
     d \<in> set (j_diagnostics j) \<or> ev = FileOutcome (Some d) \<or>
     (\<exists>ds. ev = StageDone ds \<and> d \<in> set ds)"
  by (cases ev; cases "j_state j")
    (auto simp: job_step_def stage_done_def split: option.splits if_splits)

lemma diagnostics_fold:
  "d \<in> set (j_diagnostics (fold job_step evs j)) \<Longrightarrow>
     d \<in> set (j_diagnostics j) \<or> FileOutcome (Some d) \<in> set evs \<or>
     (\<exists>ds. StageDone ds \<in> set evs \<and> d \<in> set ds)"
proof (induction evs arbitrary: j)
  case Nil
  then show ?case by simp
next
  case (Cons ev evs)
  from Cons.prems have "d \<in> set (j_diagnostics (fold job_step evs (job_step ev j)))"
    by simp
  from Cons.IH [OF this] diagnostics_step [of d ev j] show ?case
    by auto
qed

lemma run_clean:
  "last (job_run [Accept 1, FileOutcome None, StageDone [], StageDone [], StageDone [], StageDone []]) =
     \<lparr>j_state = Completed, j_total = Some 1, j_parsed = 1, j_diagnostics = [], j_fatal = None,
      j_results = [GraphPart, MetricsPart, RisksPart]\<rparr>"
  by (simp add: job_run_def job_init_def job_step_def stage_done_def)

lemma run_diag:
  "map percent (job_run [Accept 2, FileOutcome None, FileOutcome (Some ParseError), StageDone [],
      StageDone [UnresolvedReference], StageDone [], StageDone []]) =
     [0, 0, 50, 100, 100, 100, 100, 100]"
  by (simp add: job_run_def job_init_def job_step_def stage_done_def percent_def)

lemma run_diag_last:
  "last (job_run [Accept 2, FileOutcome None, FileOutcome (Some ParseError), StageDone [],
      StageDone [UnresolvedReference], StageDone [], StageDone []]) =
     \<lparr>j_state = Completed, j_total = Some 2, j_parsed = 2,
      j_diagnostics = [ParseError, UnresolvedReference], j_fatal = None,
      j_results = [GraphPart, MetricsPart, RisksPart]\<rparr>"
  by (simp add: job_run_def job_init_def job_step_def stage_done_def)

lemma run_empty:
  "map percent (job_run [Accept 0, StageDone [], StageDone [], StageDone [], StageDone []]) =
     [0, 100, 100, 100, 100, 100]"
  by (simp add: job_run_def job_init_def job_step_def stage_done_def percent_def)

lemma run_empty_last:
  "last (job_run [Accept 0, StageDone [], StageDone [], StageDone [], StageDone []]) =
     \<lparr>j_state = Completed, j_total = Some 0, j_parsed = 0, j_diagnostics = [], j_fatal = None,
      j_results = [GraphPart, MetricsPart, RisksPart]\<rparr>"
  by (simp add: job_run_def job_init_def job_step_def stage_done_def)

lemma run_cancelled:
  "map percent (job_run [Accept 3, FileOutcome None, Cancel, FileOutcome None]) = [0, 0, 33, 33, 33]"
  by (simp add: job_run_def job_init_def job_step_def stage_done_def percent_def)

lemma run_failed:
  "last (job_run [Accept 1, FileOutcome None, StageDone [], StageDone [], Fatal ''metric error'',
      StageDone []]) =
     \<lparr>j_state = Failed, j_total = Some 1, j_parsed = 1, j_diagnostics = [],
      j_fatal = Some ''metric error'', j_results = []\<rparr>"
  by (simp add: job_run_def job_init_def job_step_def stage_done_def)

text \<open>
  Claim C3. Along the history of every job the reported percentage never decreases and
  never exceeds 100, and there is at most one moment at which it becomes 100. If the job
  ends in Completed there is exactly one such moment, and the job is not Completed before
  it. The percentage is 100 exactly when every enumerated file has its outcome: each file
  outcome, success or failure, is counted, and once all files of the list have theirs the
  percentage is 100.
\<close>

theorem progress_monotone_reaches_100:
  "(\<forall>i k. i < k \<longrightarrow> k < length (job_run evs) \<longrightarrow>
      percent (job_run evs ! i) \<le> percent (job_run evs ! k) \<and>
      percent (job_run evs ! k) \<le> 100) \<and>
   (\<forall>k1 k2. k1 < length (job_run evs) \<longrightarrow> k2 < length (job_run evs) \<longrightarrow>
      percent (job_run evs ! k1) = 100 \<and>
      (k1 = 0 \<or> percent (job_run evs ! (k1 - 1)) \<noteq> 100) \<longrightarrow>
      percent (job_run evs ! k2) = 100 \<and>
      (k2 = 0 \<or> percent (job_run evs ! (k2 - 1)) \<noteq> 100) \<longrightarrow> k1 = k2) \<and>
   (j_state (last (job_run evs)) = Completed \<longrightarrow>
      (\<exists>k < length (job_run evs).
         percent (job_run evs ! k) = 100 \<and>
         (k = 0 \<or> percent (job_run evs ! (k - 1)) \<noteq> 100) \<and>
         (\<forall>m < length (job_run evs). j_state (job_run evs ! m) = Completed \<longrightarrow> k \<le> m))) \<and>
   (\<forall>x \<in> set (job_run evs). \<forall>t. j_total x = Some t \<longrightarrow>
      (percent x = 100 \<longleftrightarrow> j_parsed x = t)) \<and>
   (length ds \<le> n \<longrightarrow>
      j_parsed (last (job_run (Accept n # map FileOutcome ds))) = length ds) \<and>
   (length ds = n \<longrightarrow> percent (last (job_run (Accept n # map FileOutcome ds))) = 100)"
proof -
  let ?n = "length (job_run evs)"
  let ?P = "\<lambda>k. percent (job_run evs ! k) = 100"
  have n: "?n = Suc (length evs)"
    by (simp add: job_run_def length_job_trace)
  have mono: "percent (job_run evs ! i) \<le> percent (job_run evs ! k) \<and>
      percent (job_run evs ! k) \<le> 100" if "i < k" "k < ?n" for i k
    using that by (rule percent_mono)
  have stays: "?P k" if "i < k" "k < ?n" "?P i" for i k
    using mono [OF that(1,2)] that(3) by simp
  have once: "k1 = k2"
    if "k1 < ?n" "k2 < ?n" "?P k1 \<and> (k1 = 0 \<or> \<not> ?P (k1 - 1))"
      "?P k2 \<and> (k2 = 0 \<or> \<not> ?P (k2 - 1))" for k1 k2
  proof (rule ccontr)
    assume ne: "k1 \<noteq> k2"
    have edge: False
      if "a < b" "b < ?n" "?P a" "b = 0 \<or> \<not> ?P (b - 1)" for a b
    proof -
      from that(1,4) have nb: "\<not> ?P (b - 1)" by auto
      from that(1) have "a = b - 1 \<or> a < b - 1" by arith
      then show False
      proof
        assume "a = b - 1" with that(3) nb show False by simp
      next
        assume "a < b - 1"
        from stays [OF this _ that(3)] that(2) nb show False by simp
      qed
    qed
    from ne have "k1 < k2 \<or> k2 < k1" by arith
    with edge [of k1 k2] edge [of k2 k1] that show False
      by blast
  qed
  have fin: "\<exists>k < ?n. ?P k \<and> (k = 0 \<or> \<not> ?P (k - 1)) \<and>
      (\<forall>m < ?n. j_state (job_run evs ! m) = Completed \<longrightarrow> k \<le> m)"
    if c: "j_state (last (job_run evs)) = Completed"
  proof -
    have compl: "?P m" if "m < ?n" "j_state (job_run evs ! m) = Completed" for m
      using that by (rule completed_percent)
    from c n have "?P (length evs)"
      by (intro compl) (simp_all add: last_job_run_nth)
    define K where "K = (LEAST k. ?P k)"
    have PK: "?P K" and least: "\<And>k. ?P k \<Longrightarrow> K \<le> k"
      unfolding K_def using \<open>?P (length evs)\<close> by (rule LeastI, intro Least_le)
    from least [OF \<open>?P (length evs)\<close>] n have Kn: "K < ?n"
      by simp
    have "K = 0 \<or> \<not> ?P (K - 1)"
      using least [of "K - 1"] by (cases K) auto
    moreover have "K \<le> m" if "m < ?n" "j_state (job_run evs ! m) = Completed" for m
      using least [OF compl [OF that]] .
    ultimately show ?thesis
      using Kn PK by blast
  qed
  have full: "percent x = 100 \<longleftrightarrow> j_parsed x = t"
    if "x \<in> set (job_run evs)" "j_total x = Some t" for x t
    using percent_100_iff [OF job_run_counters [OF that(1)] that(2)] .
  have counted: "j_parsed (last (job_run (Accept n # map FileOutcome ds))) = length ds"
    if "length ds \<le> n"
    using outcomes_run [OF that] by simp
  have complete: "percent (last (job_run (Accept n # map FileOutcome ds))) = 100"
    if "length ds = n"
    using outcomes_run [of ds n] that by simp
  from mono once fin full counted complete show ?thesis
    by blast
qed

theorem progress_monotone_reaches_100_witness:
  "map percent (job_run [Accept 2, FileOutcome None, FileOutcome (Some ParseError),
      StageDone [], StageDone [UnresolvedReference], StageDone [], StageDone []]) =
     [0, 0, 50, 100, 100, 100, 100, 100] \<and>
   j_state (last (job_run [Accept 2, FileOutcome None, FileOutcome (Some ParseError),
      StageDone [], StageDone [UnresolvedReference], StageDone [], StageDone []])) = Completed \<and>
   (\<exists>k < length (job_run [Accept 2, FileOutcome None, FileOutcome (Some ParseError),
      StageDone [], StageDone [UnresolvedReference], StageDone [], StageDone []]).
      percent (job_run [Accept 2, FileOutcome None, FileOutcome (Some ParseError),
        StageDone [], StageDone [UnresolvedReference], StageDone [], StageDone []] ! k) = 100 \<and>
      (k = 0 \<or>
       percent (job_run [Accept 2, FileOutcome None, FileOutcome (Some ParseError),
         StageDone [], StageDone [UnresolvedReference], StageDone [], StageDone []] ! (k - 1))
         \<noteq> 100) \<and>
      (\<forall>m < length (job_run [Accept 2, FileOutcome None, FileOutcome (Some ParseError),
          StageDone [], StageDone [UnresolvedReference], StageDone [], StageDone []]).
         j_state (job_run [Accept 2, FileOutcome None, FileOutcome (Some ParseError),
           StageDone [], StageDone [UnresolvedReference], StageDone [], StageDone []] ! m)
            = Completed \<longrightarrow> k \<le> m)) \<and>
   map percent (job_run [Accept 0, StageDone [], StageDone [], StageDone [], StageDone []]) =
     [0, 100, 100, 100, 100, 100] \<and>
   j_state (last (job_run [Accept 0, StageDone [], StageDone [], StageDone [], StageDone []])) =
     Completed \<and>
   (\<exists>k < length (job_run [Accept 0, StageDone [], StageDone [], StageDone [], StageDone []]).
      percent (job_run [Accept 0, StageDone [], StageDone [], StageDone [], StageDone []] ! k)
        = 100 \<and>
      (k = 0 \<or>
       percent (job_run [Accept 0, StageDone [], StageDone [], StageDone [], StageDone []]
         ! (k - 1)) \<noteq> 100) \<and>
      (\<forall>m < length (job_run [Accept 0, StageDone [], StageDone [], StageDone [], StageDone []]).
         j_state (job_run [Accept 0, StageDone [], StageDone [], StageDone [], StageDone []] ! m)
            = Completed \<longrightarrow> k \<le> m)) \<and>
   map percent (job_run [Accept 3, FileOutcome None, Cancel, FileOutcome None]) =
     [0, 0, 33, 33, 33] \<and>
   length [None, Some ParseError] = (2::nat) \<and>
   percent (last (job_run (Accept 2 # map FileOutcome [None, Some ParseError]))) = 100"
proof -
  let ?a = "[Accept 2, FileOutcome None, FileOutcome (Some ParseError),
      StageDone [], StageDone [UnresolvedReference], StageDone [], StageDone []]"
  let ?b = "[Accept 0, StageDone [], StageDone [], StageDone [], StageDone []]"
  have a: "j_state (last (job_run ?a)) = Completed"
    by (simp add: run_diag_last)
  have b: "j_state (last (job_run ?b)) = Completed"
    by (simp add: run_empty_last)
  have l: "length [None, Some ParseError] = (2::nat)"
    by simp
  from progress_monotone_reaches_100 [of ?a "[None, Some ParseError]" 2] a l
  have 1: "\<exists>k < length (job_run ?a). percent (job_run ?a ! k) = 100 \<and>
      (k = 0 \<or> percent (job_run ?a ! (k - 1)) \<noteq> 100) \<and>
      (\<forall>m < length (job_run ?a). j_state (job_run ?a ! m) = Completed \<longrightarrow> k \<le> m)"
    and 3: "percent (last (job_run (Accept 2 # map FileOutcome [None, Some ParseError]))) = 100"
    by blast+
  from progress_monotone_reaches_100 [of ?b "[]" 0] b
  have 2: "\<exists>k < length (job_run ?b). percent (job_run ?b ! k) = 100 \<and>
      (k = 0 \<or> percent (job_run ?b ! (k - 1)) \<noteq> 100) \<and>
      (\<forall>m < length (job_run ?b). j_state (job_run ?b ! m) = Completed \<longrightarrow> k \<le> m)"
    by blast
  from a b l 1 2 3 run_diag run_empty run_cancelled show ?thesis
    by blast
qed

text \<open>
  Claim C5. A job that ends in Completed holds all three parts of its result and no fatal
  error, next to its diagnostics list, which holds nothing but diagnostics of the file
  outcomes and stage completions the job received (it may be empty or not); a job that
  ends in Failed holds no result part and exactly one fatal error description, the one of
  a fatal event it received. Once a job has ended, no further event changes its record.
\<close>

theorem terminal_job_payload:
  "(j_state (last (job_run evs)) = Completed \<longrightarrow>
      j_results (last (job_run evs)) = [GraphPart, MetricsPart, RisksPart] \<and>
      (\<forall>d \<in> set (j_diagnostics (last (job_run evs))).
         FileOutcome (Some d) \<in> set evs \<or> (\<exists>ds. StageDone ds \<in> set evs \<and> d \<in> set ds)) \<and>
      j_fatal (last (job_run evs)) = None) \<and>
   (j_state (last (job_run evs)) = Failed \<longrightarrow>
      j_results (last (job_run evs)) = [] \<and>
      (\<exists>!err. j_fatal (last (job_run evs)) = Some err) \<and>
      (\<exists>err. Fatal err \<in> set evs \<and> j_fatal (last (job_run evs)) = Some err)) \<and>
   (terminal (j_state (last (job_run evs))) \<longrightarrow>
      last (job_run (evs @ later)) = last (job_run evs))"
proof (intro conjI impI)
  assume "j_state (last (job_run evs)) = Completed"
  with job_run_payload [of evs]
  show "j_results (last (job_run evs)) = [GraphPart, MetricsPart, RisksPart]"
    and "j_fatal (last (job_run evs)) = None"
    by (simp_all add: payload_inv_def)
  show "\<forall>d \<in> set (j_diagnostics (last (job_run evs))).
      FileOutcome (Some d) \<in> set evs \<or> (\<exists>ds. StageDone ds \<in> set evs \<and> d \<in> set ds)"
    using diagnostics_fold [of _ evs job_init]
    by (auto simp: job_run_def last_job_trace job_init_def)
next
  assume f: "j_state (last (job_run evs)) = Failed"
  with job_run_payload [of evs]
  show "j_results (last (job_run evs)) = []"
    by (simp add: payload_inv_def)
  from f job_run_payload [of evs] have ne: "j_fatal (last (job_run evs)) \<noteq> None"
    by (simp add: payload_inv_def)
  then show "\<exists>!err. j_fatal (last (job_run evs)) = Some err"
    by auto
  from ne fatal_fold [of evs job_init]
  show "\<exists>err. Fatal err \<in> set evs \<and> j_fatal (last (job_run evs)) = Some err"
    by (auto simp: job_run_def last_job_trace job_init_def)
next
  assume "terminal (j_state (last (job_run evs)))"
  then show "last (job_run (evs @ later)) = last (job_run evs)"
    by (rule job_run_append)
qed

theorem terminal_job_payload_witness:
  "last (job_run [Accept 1, FileOutcome None, StageDone [], StageDone [], StageDone [],
      StageDone []]) =
     \<lparr>j_state = Completed, j_total = Some 1, j_parsed = 1, j_diagnostics = [], j_fatal = None,
      j_results = [GraphPart, MetricsPart, RisksPart]\<rparr> \<and>
   last (job_run [Accept 2, FileOutcome None, FileOutcome (Some ParseError), StageDone [],
      StageDone [UnresolvedReference], StageDone [], StageDone []]) =
     \<lparr>j_state = Completed, j_total = Some 2, j_parsed = 2,
      j_diagnostics = [ParseError, UnresolvedReference], j_fatal = None,
      j_results = [GraphPart, MetricsPart, RisksPart]\<rparr> \<and>
   last (job_run [Accept 1, FileOutcome None, StageDone [], StageDone [],
      Fatal ''metric error'', StageDone []]) =
     \<lparr>j_state = Failed, j_total = Some 1, j_parsed = 1, j_diagnostics = [],
      j_fatal = Some ''metric error'', j_results = []\<rparr> \<and>
   (\<exists>!err. j_fatal (last (job_run [Accept 1, FileOutcome None, StageDone [], StageDone [],
      Fatal ''metric error'', StageDone []])) = Some err) \<and>
   last (job_run ([Accept 1, FileOutcome None, StageDone [], StageDone [],
      Fatal ''metric error'', StageDone []] @ [StageDone [], Cancel])) =
     last (job_run [Accept 1, FileOutcome None, StageDone [], StageDone [],
      Fatal ''metric error'', StageDone []])"
proof -
  let ?failed = "[Accept 1, FileOutcome None, StageDone [], StageDone [],
      Fatal ''metric error'', StageDone []]"
  have f: "j_state (last (job_run ?failed)) = Failed"
    unfolding run_failed by simp
  then have t: "terminal (j_state (last (job_run ?failed)))"
    by simp
  from terminal_job_payload [of ?failed "[StageDone [], Cancel]"] f t
  have "(\<exists>!err. j_fatal (last (job_run ?failed)) = Some err) \<and>
    last (job_run (?failed @ [StageDone [], Cancel])) = last (job_run ?failed)"
    by blast
  with run_clean run_diag_last run_failed show ?thesis
    by blast
qed


section \<open>Properties of the Parsing stage and the Dependency Graph Builder\<close>














end
